theory Spec2Isabelle
  imports Complex_Main "HOL-Library.Multiset"
begin

section \<open>Numbers\<close>

text \<open>
  The TypeScript sources compute with \<open>number\<close>. The embedding takes a number to be a
  real: a finite value, computed without rounding. Timestamps (\<open>Date\<close>) are integers,
  the milliseconds since the epoch, and an ISO string of a date is represented by that
  integer. Indices and lengths are naturals or integers.
\<close>

section \<open>Geodesy utilities (insights route)\<close>

definition EARTH_MEAN_RADIUS_KM :: real where
  "EARTH_MEAN_RADIUS_KM = 6371.0088"





definition toRadians :: "real \<Rightarrow> real" where
  "toRadians v = (v * pi) / 180"

text \<open>\<open>Math.atan2(y, x)\<close>, the angle of the point \<open>(x, y)\<close> in \<open>(-\<pi>, \<pi>]\<close>.\<close>

definition atan2 :: "real \<Rightarrow> real \<Rightarrow> real" where
  "atan2 y x =
     (if 0 < x then arctan (y / x)
      else if x < 0 then (if 0 \<le> y then arctan (y / x) + pi else arctan (y / x) - pi)
      else if 0 < y then pi / 2
      else if y < 0 then - (pi / 2)
      else 0)"

definition haversine_a :: "real \<Rightarrow> real \<Rightarrow> real \<Rightarrow> real \<Rightarrow> real" where
  "haversine_a lat1 lon1 lat2 lon2 =
     (let dLat = toRadians (lat2 - lat1);
          dLon = toRadians (lon2 - lon1)
      in (sin (dLat / 2))\<^sup>2 +
         cos (toRadians lat1) * cos (toRadians lat2) * (sin (dLon / 2))\<^sup>2)"

definition haversineDistance :: "real \<Rightarrow> real \<Rightarrow> real \<Rightarrow> real \<Rightarrow> real" where
  "haversineDistance lat1 lon1 lat2 lon2 =
     (let a = haversine_a lat1 lon1 lat2 lon2;
          c = 2 * atan2 (sqrt a) (sqrt (1 - a))
      in EARTH_MEAN_RADIUS_KM * c)"

section \<open>Weather classification and aggregation (globe data loader)\<close>

datatype WeatherStatus = Clear | Storm | Cloudy | Rain | Wind

record WeatherObservation =
  obs_id :: string
  obs_name :: string
  obs_latitude :: real
  obs_longitude :: real
  obs_temperature :: real
  obs_precipitation :: real
  obs_cloudcover :: real
  obs_windspeed :: real

record HeatmapPoint =
  hp_id :: string
  hp_name :: string
  hp_latitude :: real
  hp_longitude :: real
  hp_intensity :: real
  hp_multipliers :: "real list option"

record WeatherCell =
  wc_id :: string
  wc_latitude :: real
  wc_longitude :: real
  wc_status :: WeatherStatus
  wc_severity :: real
  wc_multipliers :: "real list option"

text \<open>\<open>WEATHER_STATUS_THRESHOLDS\<close>.\<close>

definition storm_precipitation :: real where "storm_precipitation = 8"
definition storm_wind :: real where "storm_wind = 12"
definition rain_precipitation :: real where "rain_precipitation = 2"
definition wind_wind :: real where "wind_wind = 12"
definition cloudy_cloudcover :: real where "cloudy_cloudcover = 45"

definition classifyWeather :: "real \<Rightarrow> real \<Rightarrow> real \<Rightarrow> WeatherStatus" where
  "classifyWeather precipitation windspeed cloudcover =
     (if precipitation \<ge> storm_precipitation \<and> windspeed \<ge> storm_wind then Storm
      else if precipitation \<ge> rain_precipitation then Rain
      else if windspeed \<ge> wind_wind then Wind
      else if cloudcover \<ge> cloudy_cloudcover then Cloudy
      else Clear)"

text \<open>
  \<open>Number.isFinite\<close>: a number of the embedding is a finite real, so the test holds of
  every value. It is kept to show the guard of the source.
\<close>

definition isFinite :: "real \<Rightarrow> bool" where
  "isFinite v = True"

definition normalize :: "real \<Rightarrow> real \<Rightarrow> real \<Rightarrow> real" where
  "normalize v mn mx =
     (if \<not> isFinite v \<or> mn = mx then 0 else (v - mn) / (mx - mn))"






definition severityBase :: "WeatherStatus \<Rightarrow> WeatherObservation \<Rightarrow> real" where
  "severityBase status cell =
     (if status = Storm then obs_precipitation cell + obs_windspeed cell * 0.4
      else if status = Rain then obs_precipitation cell
      else if status = Wind then obs_windspeed cell
      else if status = Cloudy then obs_cloudcover cell
      else 5)"

definition weather_cell :: "WeatherObservation \<Rightarrow> WeatherCell" where
  "weather_cell cell =
     (let status = classifyWeather (obs_precipitation cell) (obs_windspeed cell)
                     (obs_cloudcover cell)
      in \<lparr> wc_id = obs_id cell,
           wc_latitude = obs_latitude cell,
           wc_longitude = obs_longitude cell,
           wc_status = status,
           wc_severity = min 1 (severityBase status cell / 20),
           wc_multipliers = Some [normalize (obs_precipitation cell) 0 12,
                                  normalize (obs_windspeed cell) 0 30] \<rparr>)"

definition loadWeatherCells :: "WeatherObservation list \<Rightarrow> WeatherCell list" where
  "loadWeatherCells samples = map weather_cell samples"

subsection \<open>Decimal strings\<close>

text \<open>The decimal digits of a number in a template string.\<close>

definition digit_char :: "nat \<Rightarrow> char" where
  "digit_char d = ''0123456789'' ! d"

fun decimal_of_nat :: "nat \<Rightarrow> string" where
  "decimal_of_nat n =
     (if 10 \<le> n then decimal_of_nat (n div 10) @ [digit_char (n mod 10)]
      else [digit_char n])"

declare decimal_of_nat.simps [simp del]

text \<open>A negative number prints with a leading minus sign.\<close>

definition decimal_of_int :: "int \<Rightarrow> string" where
  "decimal_of_int i =
     (if 0 \<le> i then decimal_of_nat (nat i) else CHR ''-'' # decimal_of_nat (nat (- i)))"

subsection \<open>Timeline\<close>

record OverlayMultipliers =
  om_heatmap :: real
  om_weather :: real
  om_routes :: real

record TimelineEvent =
  ev_id :: string
  ev_label :: string
  ev_description :: string
  ev_timestamp :: int
  ev_overlayMultipliers :: OverlayMultipliers

definition hours :: "int list" where
  "hours = [-6, -3, 0, 3, 6, 9]"

text \<open>The mean of the cells' severities: \<open>reduce\<close> from 0, over \<open>max(cells.length, 1)\<close>.\<close>

definition mean_severity :: "WeatherCell list \<Rightarrow> real" where
  "mean_severity cells =
     foldl (\<lambda>acc cell. acc + wc_severity cell) 0 cells / real (max (length cells) 1)"

definition timeline_event :: "int \<Rightarrow> WeatherCell list \<Rightarrow> int \<Rightarrow> nat \<Rightarrow> TimelineEvent" where
  "timeline_event now cells offset index =
     (let timestamp = now + offset * 60 * 60 * 1000;
          severity = mean_severity cells
      in \<lparr> ev_id = ''event-'' @ decimal_of_nat index,
           ev_label = (if offset = 0 then ''Now''
                       else if offset > 0 then ''+'' @ decimal_of_int offset @ ''h''
                       else decimal_of_int offset @ ''h''),
           ev_description =
             (if offset = 0 then ''Live conditions across monitored sites.''
              else if offset > 0 then ''Projected weather pattern shift.''
              else ''Historical snapshot from earlier today.''),
           ev_timestamp = timestamp,
           ev_overlayMultipliers =
             \<lparr> om_heatmap = min 1 (severity + real index * 0.05),
               om_weather = min 1 (severity + real index * 0.08),
               om_routes = max 0.4 (1 - \<bar>real_of_int offset\<bar> * 0.05) \<rparr> \<rparr>)"

text \<open>\<open>loadTimeline\<close>, given the current time in milliseconds.\<close>

definition loadTimeline :: "int \<Rightarrow> WeatherCell list \<Rightarrow> TimelineEvent list" where
  "loadTimeline now cells =
     map (\<lambda>(offset, index). timeline_event now cells offset index)
       (zip hours [0..<length hours])"

subsection \<open>Route arcs\<close>

record Endpoint =
  ep_name :: string
  ep_latitude :: real
  ep_longitude :: real

record RouteArc =
  arc_id :: string
  arc_from :: Endpoint
  arc_to :: Endpoint
  arc_magnitude :: real
  arc_multipliers :: "real list option"

text \<open>
  \<open>[...points].sort((a, b) => b.intensity - a.intensity)\<close>: a stable sort, descending
  by intensity.
\<close>

definition sort_by_intensity_desc :: "HeatmapPoint list \<Rightarrow> HeatmapPoint list" where
  "sort_by_intensity_desc points = sort_key (\<lambda>p. - hp_intensity p) points"

definition endpoint_of :: "HeatmapPoint \<Rightarrow> Endpoint" where
  "endpoint_of p = \<lparr> ep_name = hp_name p, ep_latitude = hp_latitude p,
                     ep_longitude = hp_longitude p \<rparr>"

definition route_arc :: "HeatmapPoint list \<Rightarrow> nat \<Rightarrow> RouteArc" where
  "route_arc sortedPts index =
     (let from = sortedPts ! index;
          to = sortedPts ! ((index + 2) mod length sortedPts)
      in \<lparr> arc_id = hp_id from @ ''-'' @ hp_id to,
           arc_from = endpoint_of from,
           arc_to = endpoint_of to,
           arc_magnitude = (hp_intensity from + hp_intensity to) / 2,
           arc_multipliers = hp_multipliers from \<rparr>)"

text \<open>
  The loop of \<open>buildRouteArcs\<close> runs \<open>index\<close> from 0 while \<open>index < sorted.length - 1\<close>;
  both reads of \<open>sorted\<close> (here \<open>sortedPts\<close>) are within its length.
\<close>

definition buildRouteArcs :: "HeatmapPoint list \<Rightarrow> RouteArc list" where
  "buildRouteArcs points =
     (if length points < 2 then []
      else let sortedPts = take 6 (sort_by_intensity_desc points)
           in map (route_arc sortedPts) [0..<length sortedPts - 1])"


text \<open>A weather cell with the given severity, for concrete instances.\<close>

definition cell_example :: "real \<Rightarrow> WeatherCell" where
  "cell_example s = \<lparr> wc_id = ''c'', wc_latitude = 0, wc_longitude = 0, wc_status = Clear,
     wc_severity = s, wc_multipliers = None \<rparr>"

text \<open>
  The overlay multipliers of the event with the given offset (hours) and index, as a
  function of the mean severity \<open>m\<close>: the ramps of the heatmap and weather channels
  are scaled by the index, the routes channel depends on the offset only.
\<close>

definition timeline_multipliers :: "real \<Rightarrow> int \<times> nat \<Rightarrow> OverlayMultipliers" where
  "timeline_multipliers m = (\<lambda>(offset, index).
     \<lparr> om_heatmap = min 1 (m + real index * 0.05),
       om_weather = min 1 (m + real index * 0.08),
       om_routes = max 0.4 (1 - \<bar>real_of_int offset\<bar> * 0.05) \<rparr>)"

text \<open>
  A heatmap point with the given id and intensity, and the batch with the intensities
  .9, .5, .7, .3, .6, .2, each point named by its rank in the descending order.
\<close>

definition hp_example :: "string \<Rightarrow> real \<Rightarrow> HeatmapPoint" where
  "hp_example n i = \<lparr> hp_id = n, hp_name = n, hp_latitude = 0, hp_longitude = 0,
     hp_intensity = i, hp_multipliers = None \<rparr>"

definition six_points :: "HeatmapPoint list" where
  "six_points = [hp_example ''s0'' (9 / 10), hp_example ''s3'' (5 / 10), hp_example ''s1'' (7 / 10),
     hp_example ''s4'' (3 / 10), hp_example ''s2'' (6 / 10), hp_example ''s5'' (2 / 10)]"

section \<open>Orbital records and passes (insights route)\<close>

subsection \<open>Strings\<close>












subsection \<open>TLE parser\<close>











subsection \<open>Closest-approach search\<close>

record SatellitePass =
  sp_name :: string
  sp_noradId :: "int option"
  sp_distanceKm :: real
  sp_passTime :: int
  sp_altitudeKm :: "real option"

















section \<open>Globe store\<close>


record ResultLinks =
  rl_osm :: string
  rl_google :: string
  rl_wikipedia :: "string option"
  rl_wikivoyage :: "string option"

record WeatherSnapshot =
  ws_temperature :: "real option"
  ws_windspeed :: "real option"
  ws_precipitation :: "real option"
  ws_description :: "string option"

record AlertInfo =
  al_id :: string
  al_title :: string
  al_source :: string
  al_severity :: "string option"
  al_magnitude :: "real option"
  al_distanceKm :: real
  al_happenedAt :: int

record SearchResult =
  sr_id :: string
  sr_name :: string
  sr_latitude :: real
  sr_longitude :: real
  sr_displayName :: string
  sr_country :: "string option"
  sr_region :: "string option"
  sr_timezone :: "string option"
  sr_population :: "real option"
  sr_elevation :: "real option"
  sr_boundingBox :: "(real \<times> real \<times> real \<times> real) option"
  sr_imageryUrl :: "string option"
  sr_fallbackImagery :: "string option"
  sr_weather :: "WeatherSnapshot option"
  sr_alerts :: "AlertInfo list option"
  sr_satellites :: "SatellitePass list option"
  sr_links :: "ResultLinks option"

record SavedTarget =
  st_id :: string
  st_name :: string
  st_latitude :: real
  st_longitude :: real
  st_savedAt :: string
  st_tags :: "string list option"
  st_notes :: "string option"

record QueryTrail =
  qt_from :: "real \<times> real"
  qt_to :: "real \<times> real"
  qt_distanceKm :: real
  qt_bearing :: real
  qt_occurredAt :: string






















section \<open>Insights request handler\<close>





record UsgsFeature =
  uf_id :: string
  uf_mag :: "real option"
  uf_title :: "string option"
  uf_place :: "string option"
  uf_time :: "int option"
  uf_coordinates :: "real \<times> real \<times> real"





















section \<open>Theorems\<close>

subsection \<open>Geodesy\<close>

lemma haversine_a_sym: "haversine_a lat1 lon1 lat2 lon2 = haversine_a lat2 lon2 lat1 lon1"
proof -
  have s: "sin (toRadians (x - y) / 2) = - sin (toRadians (y - x) / 2)" for x y :: real
  proof -
    have "toRadians (x - y) / 2 = - (toRadians (y - x) / 2)"
      by (simp add: toRadians_def field_simps)
    then show ?thesis by (simp only: sin_minus)
  qed
  show ?thesis
    unfolding haversine_a_def Let_def
    by (simp add: s [of lat2 lat1] s [of lon2 lon1] mult.commute)
qed

lemma haversine_a_same: "haversine_a lat lon lat lon = 0"
  by (simp add: haversine_a_def toRadians_def)

lemma haversine_a_antipodal: "haversine_a 0 0 0 180 = 1"
  by (simp add: haversine_a_def toRadians_def)

text \<open>
  C8. The haversine distance is symmetric in its two points, is 0 for two identical
  points, and between (0, 0) and (0, 180) it is within 1 km of \<open>\<pi> \<cdot> 6371.0088\<close> km.
\<close>

theorem haversineDistance_sym_zero_antipodal:
  "haversineDistance lat1 lon1 lat2 lon2 = haversineDistance lat2 lon2 lat1 lon1
   \<and> haversineDistance lat lon lat lon = 0
   \<and> \<bar>haversineDistance 0 0 0 180 - pi * 6371.0088\<bar> \<le> 1"
proof (intro conjI)
  show "haversineDistance lat1 lon1 lat2 lon2 = haversineDistance lat2 lon2 lat1 lon1"
    by (simp add: haversineDistance_def haversine_a_sym [of lat1 lon1 lat2 lon2])
  show "haversineDistance lat lon lat lon = 0"
    by (simp add: haversineDistance_def haversine_a_same atan2_def)
  have "haversineDistance 0 0 0 180 = pi * 6371.0088"
    by (simp add: haversineDistance_def haversine_a_antipodal atan2_def
        EARTH_MEAN_RADIUS_KM_def)
  then show "\<bar>haversineDistance 0 0 0 180 - pi * 6371.0088\<bar> \<le> 1"
    by simp
qed

subsection \<open>Weather classification\<close>

text \<open>
  C5. The classifier picks the status by the priority storm, rain, wind, cloudy, clear,
  with inclusive thresholds (precipitation 8 and wind speed 12 is a storm), and the
  severity of a cell is \<open>min(1, base / 20)\<close> with the base of its status: 0.25 for clear.
\<close>

theorem weather_cell_priority_severity:
  "classifyWeather p w c =
     (if p \<ge> 8 \<and> w \<ge> 12 then Storm
      else if p \<ge> 2 then Rain
      else if w \<ge> 12 then Wind
      else if c \<ge> 45 then Cloudy
      else Clear)
   \<and> classifyWeather 8 12 c = Storm
   \<and> map (\<lambda>cell. (wc_status cell, wc_severity cell)) (loadWeatherCells samples) =
     map (\<lambda>s. let p = obs_precipitation s; w = obs_windspeed s; c = obs_cloudcover s;
                   status = classifyWeather p w c
               in (status,
                   case status of
                     Storm \<Rightarrow> min 1 ((p + w * 0.4) / 20)
                   | Rain \<Rightarrow> min 1 (p / 20)
                   | Wind \<Rightarrow> min 1 (w / 20)
                   | Cloudy \<Rightarrow> min 1 (c / 20)
                   | Clear \<Rightarrow> 0.25)) samples"
proof (intro conjI)
  show "classifyWeather p w c =
     (if p \<ge> 8 \<and> w \<ge> 12 then Storm
      else if p \<ge> 2 then Rain
      else if w \<ge> 12 then Wind
      else if c \<ge> 45 then Cloudy
      else Clear)"
    by (simp add: classifyWeather_def storm_precipitation_def storm_wind_def
        rain_precipitation_def wind_wind_def cloudy_cloudcover_def)
  show "classifyWeather 8 12 c = Storm"
    by (simp add: classifyWeather_def storm_precipitation_def storm_wind_def)
  have "(wc_status (weather_cell s), wc_severity (weather_cell s)) =
     (let p = obs_precipitation s; w = obs_windspeed s; c = obs_cloudcover s;
          status = classifyWeather p w c
      in (status,
          case status of
            Storm \<Rightarrow> min 1 ((p + w * 0.4) / 20)
          | Rain \<Rightarrow> min 1 (p / 20)
          | Wind \<Rightarrow> min 1 (w / 20)
          | Cloudy \<Rightarrow> min 1 (c / 20)
          | Clear \<Rightarrow> 0.25))" for s
    by (cases "classifyWeather (obs_precipitation s) (obs_windspeed s) (obs_cloudcover s)")
       (simp_all add: weather_cell_def severityBase_def Let_def)
  then show "map (\<lambda>cell. (wc_status cell, wc_severity cell)) (loadWeatherCells samples) =
     map (\<lambda>s. let p = obs_precipitation s; w = obs_windspeed s; c = obs_cloudcover s;
                   status = classifyWeather p w c
               in (status,
                   case status of
                     Storm \<Rightarrow> min 1 ((p + w * 0.4) / 20)
                   | Rain \<Rightarrow> min 1 (p / 20)
                   | Wind \<Rightarrow> min 1 (w / 20)
                   | Cloudy \<Rightarrow> min 1 (c / 20)
                   | Clear \<Rightarrow> 0.25)) samples"
    by (simp add: loadWeatherCells_def)
qed

subsection \<open>Normalisation\<close>






subsection \<open>Timeline\<close>

lemma loadTimeline_unfold:
  "loadTimeline now cells =
     [timeline_event now cells (-6) 0, timeline_event now cells (-3) 1,
      timeline_event now cells 0 2, timeline_event now cells 3 3,
      timeline_event now cells 6 4, timeline_event now cells 9 5]"
  by (simp add: loadTimeline_def hours_def upt_rec eval_nat_numeral)

lemma foldl_severity:
  "foldl (\<lambda>acc cell. acc + wc_severity cell) a cells = a + sum_list (map wc_severity cells)"
  by (induction cells arbitrary: a) simp_all

lemma mean_severity_sum:
  "mean_severity cells =
     sum_list (map wc_severity cells) / real (max (length (map wc_severity cells)) 1)"
  by (simp add: mean_severity_def foldl_severity)

lemma sum_list_unit_bounds:
  "\<forall>x\<in>set xs. 0 \<le> x \<and> x \<le> (1::real) \<Longrightarrow> 0 \<le> sum_list xs \<and> sum_list xs \<le> real (length xs)"
  by (induction xs) auto

lemma mean_severity_bounds:
  assumes "\<forall>c\<in>set cells. 0 \<le> wc_severity c \<and> wc_severity c \<le> 1"
  shows "0 \<le> mean_severity cells \<and> mean_severity cells \<le> 1"
proof -
  have b: "0 \<le> sum_list (map wc_severity cells)"
    "sum_list (map wc_severity cells) \<le> real (length cells)"
    using sum_list_unit_bounds [of "map wc_severity cells"] assms by auto
  have "real (length cells) \<le> real (max (length cells) 1)" by simp
  with b have "sum_list (map wc_severity cells) \<le> real (max (length cells) 1)" by linarith
  moreover have "0 < real (max (length cells) 1)" by simp
  ultimately show ?thesis
    using b(1) by (simp add: mean_severity_sum)
qed

lemma timeline_event_multipliers:
  "ev_overlayMultipliers (timeline_event now cells offset index) =
     timeline_multipliers (mean_severity cells) (offset, index)"
  by (simp add: timeline_event_def timeline_multipliers_def Let_def)

lemma timeline_event_in_unit:
  assumes "0 \<le> mean_severity cells" and "\<bar>offset\<bar> \<le> 20"
  shows "0 \<le> om_heatmap (ev_overlayMultipliers (timeline_event now cells offset index))
       \<and> om_heatmap (ev_overlayMultipliers (timeline_event now cells offset index)) \<le> 1
       \<and> 0 \<le> om_weather (ev_overlayMultipliers (timeline_event now cells offset index))
       \<and> om_weather (ev_overlayMultipliers (timeline_event now cells offset index)) \<le> 1
       \<and> 0 \<le> om_routes (ev_overlayMultipliers (timeline_event now cells offset index))
       \<and> om_routes (ev_overlayMultipliers (timeline_event now cells offset index)) \<le> 1"
  using assms by (simp add: timeline_event_def Let_def)

text \<open>
  C9 (amended). For cells with severities in [0, 1], \<open>loadTimeline\<close> returns exactly 6
  events, at the offsets -6, -3, 0, 3, 6, 9 hours from now. The heatmap and weather
  multipliers are \<open>min(1, mean + index \<cdot> 0.05)\<close> and \<open>min(1, mean + index \<cdot> 0.08)\<close> over
  the mean cell severity; the routes multiplier is \<open>max(0.4, 1 - |offset| \<cdot> 0.05)\<close>, which
  does not depend on the severities. All three lie in [0, 1], and equal input severities
  give equal multipliers.
\<close>

theorem loadTimeline_six_events:
  assumes "\<forall>c\<in>set cells. 0 \<le> wc_severity c \<and> wc_severity c \<le> 1"
  shows "length (loadTimeline now cells) = 6
   \<and> map ev_timestamp (loadTimeline now cells) =
       map (\<lambda>h. now + h * 3600000) [-6, -3, 0, 3, 6, 9]
   \<and> map ev_overlayMultipliers (loadTimeline now cells) =
       map (timeline_multipliers (mean_severity cells))
         [(-6, 0), (-3, 1), (0, 2), (3, 3), (6, 4), (9, 5)]
   \<and> (\<forall>e\<in>set (loadTimeline now cells).
        0 \<le> om_heatmap (ev_overlayMultipliers e) \<and> om_heatmap (ev_overlayMultipliers e) \<le> 1
      \<and> 0 \<le> om_weather (ev_overlayMultipliers e) \<and> om_weather (ev_overlayMultipliers e) \<le> 1
      \<and> 0 \<le> om_routes (ev_overlayMultipliers e) \<and> om_routes (ev_overlayMultipliers e) \<le> 1)
   \<and> (map wc_severity cells' = map wc_severity cells \<longrightarrow>
        map ev_overlayMultipliers (loadTimeline now' cells') =
        map ev_overlayMultipliers (loadTimeline now cells))"
proof (intro conjI impI)
  show "length (loadTimeline now cells) = 6"
    by (simp add: loadTimeline_unfold)
  show "map ev_timestamp (loadTimeline now cells) =
       map (\<lambda>h. now + h * 3600000) [-6, -3, 0, 3, 6, 9]"
    by (simp add: loadTimeline_unfold timeline_event_def Let_def)
  show "map ev_overlayMultipliers (loadTimeline now cells) =
       map (timeline_multipliers (mean_severity cells))
         [(-6, 0), (-3, 1), (0, 2), (3, 3), (6, 4), (9, 5)]"
    by (simp add: loadTimeline_unfold timeline_event_multipliers)
  have m: "0 \<le> mean_severity cells"
    using mean_severity_bounds [OF assms] by simp
  show "\<forall>e\<in>set (loadTimeline now cells).
        0 \<le> om_heatmap (ev_overlayMultipliers e) \<and> om_heatmap (ev_overlayMultipliers e) \<le> 1
      \<and> 0 \<le> om_weather (ev_overlayMultipliers e) \<and> om_weather (ev_overlayMultipliers e) \<le> 1
      \<and> 0 \<le> om_routes (ev_overlayMultipliers e) \<and> om_routes (ev_overlayMultipliers e) \<le> 1"
    unfolding loadTimeline_unfold
    using timeline_event_in_unit [OF m, of "-6" now 0] timeline_event_in_unit [OF m, of "-3" now 1]
      timeline_event_in_unit [OF m, of 0 now 2] timeline_event_in_unit [OF m, of 3 now 3]
      timeline_event_in_unit [OF m, of 6 now 4] timeline_event_in_unit [OF m, of 9 now 5]
    by simp
  show "map ev_overlayMultipliers (loadTimeline now' cells') =
        map ev_overlayMultipliers (loadTimeline now cells)"
    if "map wc_severity cells' = map wc_severity cells"
  proof -
    have "mean_severity cells' = mean_severity cells"
      using that by (simp only: mean_severity_sum)
    then show ?thesis
      by (simp add: loadTimeline_unfold timeline_event_multipliers)
  qed
qed

theorem loadTimeline_six_events_witness:
  "map ev_overlayMultipliers (loadTimeline 1000 [cell_example (1 / 4), cell_example (3 / 4)]) =
     [\<lparr>om_heatmap = 0.5, om_weather = 0.5, om_routes = 0.7\<rparr>,
      \<lparr>om_heatmap = 0.55, om_weather = 0.58, om_routes = 0.85\<rparr>,
      \<lparr>om_heatmap = 0.6, om_weather = 0.66, om_routes = 1\<rparr>,
      \<lparr>om_heatmap = 0.65, om_weather = 0.74, om_routes = 0.85\<rparr>,
      \<lparr>om_heatmap = 0.7, om_weather = 0.82, om_routes = 0.7\<rparr>,
      \<lparr>om_heatmap = 0.75, om_weather = 0.9, om_routes = 0.55\<rparr>]
   \<and> length (loadTimeline 1000 [cell_example (1 / 4), cell_example (3 / 4)]) = 6"
proof -
  let ?cells = "[cell_example (1 / 4), cell_example (3 / 4)]"
  have h: "\<forall>c\<in>set ?cells. 0 \<le> wc_severity c \<and> wc_severity c \<le> 1"
    by (simp add: cell_example_def)
  have m: "mean_severity ?cells = 1 / 2"
    by (simp add: mean_severity_def cell_example_def)
  note inst = loadTimeline_six_events [OF h, of 1000 ?cells 1000]
  from inst have "length (loadTimeline 1000 ?cells) = 6" by (rule conjunct1)
  moreover from inst have "map ev_overlayMultipliers (loadTimeline 1000 ?cells) =
       map (timeline_multipliers (mean_severity ?cells))
         [(-6, 0), (-3, 1), (0, 2), (3, 3), (6, 4), (9, 5)]"
    by (elim conjE)
  ultimately show ?thesis
    by (simp add: m timeline_multipliers_def)
qed

text \<open>
  C9 as stated fails for the routes channel: at the first event (index 0, where a ramp
  scaled by the index adds nothing) the routes multiplier is 0.7 both for mean severity
  0 and for mean severity 1, so it is not derived from the mean severity.
\<close>

theorem loadTimeline_routes_counterexample:
  "mean_severity [] = 0
   \<and> om_routes (ev_overlayMultipliers (loadTimeline 0 [] ! 0)) = 0.7
   \<and> mean_severity [cell_example 1] = 1
   \<and> om_routes (ev_overlayMultipliers (loadTimeline 0 [cell_example 1] ! 0)) = 0.7"
  by (simp add: loadTimeline_unfold timeline_event_def mean_severity_def cell_example_def)

subsection \<open>Route arcs\<close>

lemma sort_by_intensity_desc_props:
  "mset (sort_by_intensity_desc points) = mset points"
  "length (sort_by_intensity_desc points) = length points"
  "sorted_wrt (\<lambda>a b. hp_intensity a \<ge> hp_intensity b) (sort_by_intensity_desc points)"
proof -
  show "mset (sort_by_intensity_desc points) = mset points"
    by (simp add: sort_by_intensity_desc_def)
  show "length (sort_by_intensity_desc points) = length points"
    by (simp add: sort_by_intensity_desc_def)
  have "sorted (map (\<lambda>p. - hp_intensity p) (sort_by_intensity_desc points))"
    by (simp add: sort_by_intensity_desc_def)
  then show "sorted_wrt (\<lambda>a b. hp_intensity a \<ge> hp_intensity b) (sort_by_intensity_desc points)"
    by (simp add: sorted_map)
qed

lemma buildRouteArcs_nth:
  assumes "2 \<le> length points" and "i < length (take 6 (sort_by_intensity_desc points)) - 1"
  shows "buildRouteArcs points ! i = route_arc (take 6 (sort_by_intensity_desc points)) i"
  using assms by (simp add: buildRouteArcs_def Let_def)

text \<open>
  C2 (amended). For a batch of at least 2 points, \<open>buildRouteArcs\<close> sorts the points
  descending by intensity and keeps the first \<open>n = min(6, length)\<close>; it emits one arc
  for each index \<open>i\<close> from 0 to \<open>n - 2\<close>, from point \<open>i\<close> to point \<open>(i + 2) mod n\<close> of
  the kept list, with the average of the two intensities as magnitude.
\<close>

theorem buildRouteArcs_pairs:
  assumes "2 \<le> length points"
  shows "let sortedPts = take 6 (sort_by_intensity_desc points); n = length sortedPts in
     mset (sort_by_intensity_desc points) = mset points
   \<and> sorted_wrt (\<lambda>a b. hp_intensity a \<ge> hp_intensity b) (sort_by_intensity_desc points)
   \<and> n = min 6 (length points)
   \<and> length (buildRouteArcs points) = n - 1
   \<and> (\<forall>i < n - 1.
        arc_from (buildRouteArcs points ! i) = endpoint_of (sortedPts ! i)
      \<and> arc_to (buildRouteArcs points ! i) = endpoint_of (sortedPts ! ((i + 2) mod n))
      \<and> arc_magnitude (buildRouteArcs points ! i) =
          (hp_intensity (sortedPts ! i) + hp_intensity (sortedPts ! ((i + 2) mod n))) / 2)"
proof -
  let ?s = "take 6 (sort_by_intensity_desc points)"
  have n: "length ?s = min 6 (length points)"
    by (simp add: sort_by_intensity_desc_props(2) min.commute)
  have len: "length (buildRouteArcs points) = length ?s - 1"
    using assms by (simp add: buildRouteArcs_def Let_def)
  have arcs: "arc_from (buildRouteArcs points ! i) = endpoint_of (?s ! i)
      \<and> arc_to (buildRouteArcs points ! i) = endpoint_of (?s ! ((i + 2) mod length ?s))
      \<and> arc_magnitude (buildRouteArcs points ! i) =
          (hp_intensity (?s ! i) + hp_intensity (?s ! ((i + 2) mod length ?s))) / 2"
    if "i < length ?s - 1" for i
    using buildRouteArcs_nth [OF assms that] by (simp add: route_arc_def Let_def)
  show ?thesis
    unfolding Let_def
    using sort_by_intensity_desc_props(1,3) [of points] n len arcs by blast
qed

lemma six_points_sorted:
  "sort_by_intensity_desc six_points =
     [hp_example ''s0'' (9 / 10), hp_example ''s1'' (7 / 10), hp_example ''s2'' (6 / 10),
      hp_example ''s3'' (5 / 10), hp_example ''s4'' (3 / 10), hp_example ''s5'' (2 / 10)]"
  by (simp add: sort_by_intensity_desc_def six_points_def hp_example_def)

lemma six_points_arcs:
  "buildRouteArcs six_points =
     map (route_arc (sort_by_intensity_desc six_points)) [0, 1, 2, 3, 4]"
proof -
  have "length six_points = 6" by (simp add: six_points_def)
  then show ?thesis
    by (simp add: buildRouteArcs_def Let_def sort_by_intensity_desc_props(2) upt_rec eval_nat_numeral)
qed

theorem buildRouteArcs_pairs_witness:
  "length (buildRouteArcs six_points) = 5
   \<and> map arc_magnitude (buildRouteArcs six_points) = [3 / 4, 3 / 5, 9 / 20, 7 / 20, 3 / 5]"
proof -
  have h: "2 \<le> length six_points" by (simp add: six_points_def)
  have l: "length (take 6 (sort_by_intensity_desc six_points)) = 6"
    by (simp add: six_points_sorted)
  note inst = buildRouteArcs_pairs [OF h, unfolded Let_def l]
  from inst have "length (buildRouteArcs six_points) = 6 - 1" by (elim conjE)
  moreover have "map arc_magnitude (buildRouteArcs six_points) = [3 / 4, 3 / 5, 9 / 20, 7 / 20, 3 / 5]"
    by (simp add: six_points_arcs six_points_sorted route_arc_def hp_example_def Let_def)
  ultimately show ?thesis by simp
qed

text \<open>
  C2 as stated fails: for the intensities .9, .5, .7, .3, .6, .2 the pairs of ranks are
  0-2, 1-3, 2-4, 3-5, 4-0, and no arc leaves rank 5; for a batch of two points the one
  arc connects the first point to itself (the modulus is the number of kept points).
\<close>

theorem buildRouteArcs_six_counterexample:
  "map (\<lambda>a. (ep_name (arc_from a), ep_name (arc_to a))) (buildRouteArcs six_points) =
     [(''s0'', ''s2''), (''s1'', ''s3''), (''s2'', ''s4''), (''s3'', ''s5''), (''s4'', ''s0'')]
   \<and> map (\<lambda>a. (ep_name (arc_from a), ep_name (arc_to a)))
       (buildRouteArcs [hp_example ''s0'' (9 / 10), hp_example ''s1'' (5 / 10)]) =
     [(''s0'', ''s0'')]"
proof (intro conjI)
  show "map (\<lambda>a. (ep_name (arc_from a), ep_name (arc_to a))) (buildRouteArcs six_points) =
     [(''s0'', ''s2''), (''s1'', ''s3''), (''s2'', ''s4''), (''s3'', ''s5''), (''s4'', ''s0'')]"
    by (simp add: six_points_arcs six_points_sorted route_arc_def endpoint_of_def hp_example_def
        Let_def)
  show "map (\<lambda>a. (ep_name (arc_from a), ep_name (arc_to a)))
       (buildRouteArcs [hp_example ''s0'' (9 / 10), hp_example ''s1'' (5 / 10)]) =
     [(''s0'', ''s0'')]"
    by (simp add: buildRouteArcs_def sort_by_intensity_desc_def route_arc_def endpoint_of_def
        hp_example_def Let_def)
qed

subsection \<open>TLE parser\<close>






subsection \<open>Closest-approach search\<close>



















subsection \<open>Ranking of the passes\<close>













subsection \<open>Globe store\<close>







subsection \<open>Insights request handler\<close>








end
